theory Spec2Isabelle
  imports Complex_Main
begin

section \<open>Values shared by the packages\<close>

subsection \<open>Go errors\<close>

text \<open>
  A Go \<open>error\<close> is an interface value. The code inspects errors in two ways only: by
  identity with the sentinel \<open>gorm.ErrRecordNotFound\<close> (\<open>err == gorm.ErrRecordNotFound\<close>)
  and by their text (\<open>err.Error() == "..."\<close>). The sentinel is its own constructor; every
  other error is a value made by \<open>errors.New\<close>, of which only the text is observed.
  The sentinel's text is \<open>"record not found"\<close>, as in gorm.
\<close>

datatype go_error = ErrRecordNotFound | ErrorsNew string

fun Error :: "go_error \<Rightarrow> string" where
  "Error ErrRecordNotFound = ''record not found''"
| "Error (ErrorsNew s) = s"

subsection \<open>Decimals and floats\<close>

text \<open>
  \<open>decimal.Decimal\<close> is a big integer coefficient with a base-ten exponent; the
  coefficient is a pointer, which is nil in the zero value \<open>Decimal{}\<close> (a price that was
  never set). \<open>Sign\<close> answers 0 for the nil coefficient, and \<open>IsZero\<close> is \<open>Sign() == 0\<close>.
\<close>

record Decimal =
  dvalue :: "int option"
  dexp :: int

definition Sign :: "Decimal \<Rightarrow> int" where
  "Sign d = (case dvalue d of None \<Rightarrow> 0 | Some v \<Rightarrow> sgn v)"

definition IsZero :: "Decimal \<Rightarrow> bool" where
  "IsZero d = (Sign d = 0)"

text \<open>The number a decimal stands for: coefficient times ten to the exponent.\<close>

definition dec_rat :: "Decimal \<Rightarrow> rat" where
  "dec_rat d =
     (case dvalue d of
        None \<Rightarrow> 0
      | Some v \<Rightarrow> (if 0 \<le> dexp d then of_int v * 10 ^ nat (dexp d)
                  else of_int v / 10 ^ nat (- dexp d)))"

text \<open>
  A finite \<open>float64\<close> is a rational number. \<open>Decimal.InexactFloat64\<close> rounds a decimal to
  a float; the rounding is not part of this repository, so every function that converts
  takes the conversion as its argument \<open>f64\<close>, and every result holds for every
  conversion.
\<close>

type_synonym float64 = rat

section \<open>Package models\<close>

text \<open>
  The persisted records. \<open>Category\<close> is declared in \<open>models\<close> with the fields \<open>ID\<close>,
  \<open>Code\<close> and \<open>Name\<close>.
\<close>

record models_Category =
  mCat_ID :: nat
  mCat_Code :: string
  mCat_Name :: string

text \<open>
  Modelled from the spec: the declarations of \<open>models.Variant\<close> and \<open>models.Product\<close>
  are not among the sources. A variant has a SKU, a display name and an optional
  override price and is owned by its product; a product has a code, a price, a nullable
  reference to one category and its variants. The field names are those the service and
  its tests use (\<open>ID\<close>, \<open>Code\<close>, \<open>Price\<close>, \<open>Category\<close>, \<open>Variants\<close>; \<open>Name\<close>, \<open>SKU\<close>,
  \<open>Price\<close>); the foreign keys are the column \<open>category_id\<close> of the schema script and
  the variant's reference to its product.
\<close>

record models_Variant =
  mVar_ID :: nat
  mVar_ProductID :: nat
  mVar_Name :: string
  mVar_SKU :: string
  mVar_Price :: Decimal

record models_Product =
  mProd_ID :: nat
  mProd_Code :: string
  mProd_Price :: Decimal
  mProd_CategoryID :: "nat option"
  mProd_Category :: models_Category
  mProd_Variants :: "models_Variant list"

text \<open>\<open>ProductsRepositoryInterface\<close>: the contract the service is written against.\<close>

record ProductsRepositoryInterface =
  repo_GetAllProducts :: "go_error + models_Product list"
  repo_GetProductsPaginated :: "int \<Rightarrow> int \<Rightarrow> go_error + models_Product list"
  repo_GetProductsCount :: "go_error + int"
  repo_GetProductsPaginatedWithFilters ::
    "int \<Rightarrow> int \<Rightarrow> string \<Rightarrow> float64 option \<Rightarrow> go_error + models_Product list"
  repo_GetProductsCountWithFilters :: "string \<Rightarrow> float64 option \<Rightarrow> go_error + int"
  repo_GetProductByCode :: "string \<Rightarrow> go_error + models_Product"

text \<open>
  \<open>CategoriesRepositoryInterface\<close>. \<open>CreateCategory\<close> takes a pointer and fills in the
  assigned identity; here it returns the stored record.
\<close>

record CategoriesRepositoryInterface =
  repo_GetAllCategories :: "go_error + models_Category list"
  repo_GetCategoryByCode :: "string \<Rightarrow> go_error + models_Category"
  repo_CreateCategory :: "models_Category \<Rightarrow> go_error + models_Category"

section \<open>Package catalog: the presentation records\<close>

record Product =
  Product_Code :: string
  Product_Price :: float64
  Product_Category :: string

record Variant =
  Variant_Name :: string
  Variant_SKU :: string
  Variant_Price :: float64

record ProductDetails =
  Details_Code :: string
  Details_Price :: float64
  Details_Category :: string
  Details_Variants :: "Variant list"

record Response =
  Products :: "Product list"
  Total :: int

record Category =
  Category_Code :: string
  Category_Name :: string

record CreateCategoryRequest =
  Req_Code :: string
  Req_Name :: string

text \<open>The interface \<open>CatalogService\<close> that the handler is written against.\<close>

record CatalogService =
  svc_GetProducts :: "go_error + Product list"
  svc_GetProductsPaginated :: "int \<Rightarrow> int \<Rightarrow> go_error + (Product list \<times> int)"
  svc_GetProductsPaginatedWithFilters ::
    "int \<Rightarrow> int \<Rightarrow> string \<Rightarrow> float64 option \<Rightarrow> go_error + (Product list \<times> int)"
  svc_GetProductByCode :: "string \<Rightarrow> go_error + ProductDetails"

section \<open>The catalog service\<close>

text \<open>
  The mapping loops allocate the result with \<open>make([]T, len(xs))\<close> and assign
  \<open>result[i]\<close> for each \<open>i, x := range xs\<close>. \<open>range_assign\<close> is that loop: the index, the
  rest of the input, and the slice being filled.
\<close>

fun range_assign :: "('a \<Rightarrow> 'b) \<Rightarrow> nat \<Rightarrow> 'a list \<Rightarrow> 'b list \<Rightarrow> 'b list" where
  "range_assign f i [] out = out"
| "range_assign f i (x # xs) out = range_assign f (Suc i) xs (out[i := f x])"

definition zero_Product :: Product where
  "zero_Product = \<lparr>Product_Code = [], Product_Price = 0, Product_Category = []\<rparr>"

definition zero_Variant :: Variant where
  "zero_Variant = \<lparr>Variant_Name = [], Variant_SKU = [], Variant_Price = 0\<rparr>"

definition map_products :: "(Decimal \<Rightarrow> float64) \<Rightarrow> models_Product list \<Rightarrow> Product list" where
  "map_products f64 dbProducts =
     range_assign
       (\<lambda>p. \<lparr>Product_Code = mProd_Code p,
             Product_Price = f64 (mProd_Price p),
             Product_Category = mCat_Name (mProd_Category p)\<rparr>)
       0 dbProducts (replicate (length dbProducts) zero_Product)"

definition GetProducts ::
  "(Decimal \<Rightarrow> float64) \<Rightarrow> ProductsRepositoryInterface \<Rightarrow> go_error + Product list" where
  "GetProducts f64 repo =
     (case repo_GetAllProducts repo of
        Inl err \<Rightarrow> Inl err
      | Inr dbProducts \<Rightarrow>
          if length dbProducts = 0 then Inr []
          else Inr (map_products f64 dbProducts))"

definition GetProductsPaginatedWithFilters ::
  "(Decimal \<Rightarrow> float64) \<Rightarrow> ProductsRepositoryInterface \<Rightarrow> int \<Rightarrow> int \<Rightarrow> string \<Rightarrow>
   float64 option \<Rightarrow> go_error + (Product list \<times> int)" where
  "GetProductsPaginatedWithFilters f64 repo offset limit category priceLt =
     (case repo_GetProductsPaginatedWithFilters repo offset limit category priceLt of
        Inl err \<Rightarrow> Inl err
      | Inr dbProducts \<Rightarrow>
          (case repo_GetProductsCountWithFilters repo category priceLt of
             Inl err \<Rightarrow> Inl err
           | Inr total' \<Rightarrow> Inr (map_products f64 dbProducts, total')))"

definition GetProductsPaginated ::
  "(Decimal \<Rightarrow> float64) \<Rightarrow> ProductsRepositoryInterface \<Rightarrow> int \<Rightarrow> int \<Rightarrow>
   go_error + (Product list \<times> int)" where
  "GetProductsPaginated f64 repo offset limit =
     (case repo_GetProductsPaginated repo offset limit of
        Inl err \<Rightarrow> Inl err
      | Inr dbProducts \<Rightarrow>
          (case repo_GetProductsCount repo of
             Inl err \<Rightarrow> Inl err
           | Inr total' \<Rightarrow> Inr (map_products f64 dbProducts, total')))"

text \<open>The body of the variant loop of \<open>GetProductByCode\<close>: the price inheritance.\<close>

definition variant_of :: "(Decimal \<Rightarrow> float64) \<Rightarrow> models_Product \<Rightarrow> models_Variant \<Rightarrow> Variant" where
  "variant_of f64 dbProduct v =
     (let price = f64 (mProd_Price dbProduct);
          price = (if \<not> IsZero (mVar_Price v) then f64 (mVar_Price v) else price)
      in \<lparr>Variant_Name = mVar_Name v, Variant_SKU = mVar_SKU v, Variant_Price = price\<rparr>)"

definition GetProductByCode ::
  "(Decimal \<Rightarrow> float64) \<Rightarrow> ProductsRepositoryInterface \<Rightarrow> string \<Rightarrow> go_error + ProductDetails" where
  "GetProductByCode f64 repo code =
     (case repo_GetProductByCode repo code of
        Inl err \<Rightarrow> Inl err
      | Inr dbProduct \<Rightarrow>
          (let variants =
                 range_assign (variant_of f64 dbProduct) 0 (mProd_Variants dbProduct)
                   (replicate (length (mProd_Variants dbProduct)) zero_Variant)
           in Inr \<lparr>Details_Code = mProd_Code dbProduct,
                   Details_Price = f64 (mProd_Price dbProduct),
                   Details_Category = mCat_Name (mProd_Category dbProduct),
                   Details_Variants = variants\<rparr>))"

text \<open>\<open>NewCatalogService\<close>: the service as the handler sees it.\<close>

definition NewCatalogService ::
  "(Decimal \<Rightarrow> float64) \<Rightarrow> ProductsRepositoryInterface \<Rightarrow> CatalogService" where
  "NewCatalogService f64 repo =
     \<lparr>svc_GetProducts = GetProducts f64 repo,
      svc_GetProductsPaginated = GetProductsPaginated f64 repo,
      svc_GetProductsPaginatedWithFilters = GetProductsPaginatedWithFilters f64 repo,
      svc_GetProductByCode = GetProductByCode f64 repo\<rparr>"

section \<open>The store and the products repository\<close>

text \<open>
  The repository builds its queries with the gorm call chain. The store is the three
  tables, the failure it answers every query with when it cannot be reached
  (\<open>db_Error\<close>), and the collation that \<open>ORDER BY products.code\<close> sorts with. A row of
  \<open>products\<close> is read through its columns only; the associations \<open>Category\<close> and
  \<open>Variants\<close> are filled by \<open>Preload\<close>.
\<close>

record database =
  db_products :: "models_Product list"
  db_categories :: "models_Category list"
  db_variants :: "models_Variant list"
  db_Error :: "go_error option"
  db_collate :: "string \<Rightarrow> string \<Rightarrow> bool"

text \<open>
  A query in the making: the rows selected so far (a product, and the category row it
  was joined with, if the query joins) and the associations to preload.
\<close>

record query =
  q_rows :: "(models_Product \<times> models_Category option) list"
  q_preload :: "string list"

fun insert_by :: "('k \<Rightarrow> 'k \<Rightarrow> bool) \<Rightarrow> ('a \<Rightarrow> 'k) \<Rightarrow> 'a \<Rightarrow> 'a list \<Rightarrow> 'a list" where
  "insert_by le key x [] = [x]"
| "insert_by le key x (y # ys) =
     (if le (key x) (key y) then x # y # ys else y # insert_by le key x ys)"

fun sort_by :: "('k \<Rightarrow> 'k \<Rightarrow> bool) \<Rightarrow> ('a \<Rightarrow> 'k) \<Rightarrow> 'a list \<Rightarrow> 'a list" where
  "sort_by le key [] = []"
| "sort_by le key (x # xs) = insert_by le key x (sort_by le key xs)"

text \<open>\<open>OFFSET n\<close> is emitted for a positive offset, \<open>LIMIT n\<close> for a limit that is not negative.\<close>

definition offset_rows :: "int \<Rightarrow> 'a list \<Rightarrow> 'a list" where
  "offset_rows n xs = (if 0 < n then drop (nat n) xs else xs)"

definition limit_rows :: "int \<Rightarrow> 'a list \<Rightarrow> 'a list" where
  "limit_rows n xs = (if 0 \<le> n then take (nat n) xs else xs)"

text \<open>\<open>r.db\<close> and \<open>r.db.Model(&Product{})\<close>: a query over the whole table \<open>products\<close>.\<close>

definition Model_Product :: "database \<Rightarrow> query" where
  "Model_Product db = \<lparr>q_rows = map (\<lambda>p. (p, None)) (db_products db), q_preload = []\<rparr>"

definition Preload :: "string \<Rightarrow> query \<Rightarrow> query" where
  "Preload name q = q\<lparr>q_preload := q_preload q @ [name]\<rparr>"

text \<open>\<open>Joins("JOIN categories ON products.category_id = categories.id")\<close>: an inner join.\<close>

definition Joins_categories :: "database \<Rightarrow> query \<Rightarrow> query" where
  "Joins_categories db q =
     q\<lparr>q_rows :=
         concat (map (\<lambda>(p, _). map (\<lambda>c. (p, Some c))
                        (filter (\<lambda>c. mProd_CategoryID p = Some (mCat_ID c)) (db_categories db)))
                   (q_rows q))\<rparr>"

text \<open>\<open>Where("categories.name = ?", category)\<close>.\<close>

definition Where_categories_name :: "string \<Rightarrow> query \<Rightarrow> query" where
  "Where_categories_name category q =
     q\<lparr>q_rows :=
         filter (\<lambda>(p, c). case c of None \<Rightarrow> False | Some c' \<Rightarrow> mCat_Name c' = category)
           (q_rows q)\<rparr>"

text \<open>\<open>Where("products.price < ?", *priceLt)\<close>.\<close>

definition Where_products_price_lt :: "float64 \<Rightarrow> query \<Rightarrow> query" where
  "Where_products_price_lt bound q =
     q\<lparr>q_rows := filter (\<lambda>(p, c). dec_rat (mProd_Price p) < bound) (q_rows q)\<rparr>"

text \<open>\<open>Where("code = ?", code)\<close>.\<close>

definition Where_code :: "string \<Rightarrow> query \<Rightarrow> query" where
  "Where_code code q = q\<lparr>q_rows := filter (\<lambda>(p, c). mProd_Code p = code) (q_rows q)\<rparr>"

text \<open>\<open>Order("products.code ASC")\<close>, \<open>Offset\<close>, \<open>Limit\<close>.\<close>

definition Order_products_code_ASC :: "database \<Rightarrow> query \<Rightarrow> query" where
  "Order_products_code_ASC db q =
     q\<lparr>q_rows := sort_by (db_collate db) (\<lambda>(p, c). mProd_Code p) (q_rows q)\<rparr>"

definition Offset :: "int \<Rightarrow> query \<Rightarrow> query" where
  "Offset n q = q\<lparr>q_rows := offset_rows n (q_rows q)\<rparr>"

definition Limit :: "int \<Rightarrow> query \<Rightarrow> query" where
  "Limit n q = q\<lparr>q_rows := limit_rows n (q_rows q)\<rparr>"

text \<open>
  Reading a row into a \<open>Product\<close>: the columns, then each preloaded association. The
  category is the row of \<open>categories\<close> the foreign key names; the variants are the
  rows of \<open>variants\<close> that name the product.
\<close>

definition zero_Category :: models_Category where
  "zero_Category = \<lparr>mCat_ID = 0, mCat_Code = [], mCat_Name = []\<rparr>"

definition scan_columns :: "models_Product \<Rightarrow> models_Product" where
  "scan_columns p = p\<lparr>mProd_Category := zero_Category, mProd_Variants := []\<rparr>"

definition preload_one :: "database \<Rightarrow> models_Product \<Rightarrow> string \<Rightarrow> models_Product" where
  "preload_one db p name =
     (if name = ''Category''
      then (case find (\<lambda>c. mProd_CategoryID p = Some (mCat_ID c)) (db_categories db) of
              None \<Rightarrow> p
            | Some c \<Rightarrow> p\<lparr>mProd_Category := c\<rparr>)
      else if name = ''Variants''
      then p\<lparr>mProd_Variants := filter (\<lambda>v. mVar_ProductID v = mProd_ID p) (db_variants db)\<rparr>
      else p)"

definition load_row :: "database \<Rightarrow> string list \<Rightarrow> models_Product \<Rightarrow> models_Product" where
  "load_row db names p = foldl (preload_one db) (scan_columns p) names"

text \<open>
  The three finishers. \<open>First\<close> orders by the primary key and fails with
  \<open>ErrRecordNotFound\<close> when no row is left.
\<close>

definition Find :: "database \<Rightarrow> query \<Rightarrow> go_error + models_Product list" where
  "Find db q =
     (case db_Error db of
        Some err \<Rightarrow> Inl err
      | None \<Rightarrow> Inr (map (\<lambda>(p, c). load_row db (q_preload q) p) (q_rows q)))"

definition Count :: "database \<Rightarrow> query \<Rightarrow> go_error + int" where
  "Count db q =
     (case db_Error db of
        Some err \<Rightarrow> Inl err
      | None \<Rightarrow> Inr (int (length (q_rows q))))"

definition First :: "database \<Rightarrow> query \<Rightarrow> go_error + models_Product" where
  "First db q =
     (case db_Error db of
        Some err \<Rightarrow> Inl err
      | None \<Rightarrow>
          (case sort_by (\<le>) (\<lambda>(p, c). mProd_ID p) (q_rows q) of
             [] \<Rightarrow> Inl ErrRecordNotFound
           | (p, c) # rest \<Rightarrow> Inr (load_row db (q_preload q) p)))"

subsection \<open>The repository methods\<close>

definition ProductsRepository_GetAllProducts :: "database \<Rightarrow> go_error + models_Product list" where
  "ProductsRepository_GetAllProducts db =
     (case Find db (Preload ''Variants'' (Preload ''Category'' (Model_Product db))) of
        Inl err \<Rightarrow> Inl err
      | Inr products \<Rightarrow> Inr products)"

definition ProductsRepository_GetProductsPaginated ::
  "database \<Rightarrow> int \<Rightarrow> int \<Rightarrow> go_error + models_Product list" where
  "ProductsRepository_GetProductsPaginated db offset limit =
     (case Find db (Limit limit (Offset offset
                 (Preload ''Variants'' (Preload ''Category'' (Model_Product db))))) of
        Inl err \<Rightarrow> Inl err
      | Inr products \<Rightarrow> Inr products)"

definition ProductsRepository_GetProductsCount :: "database \<Rightarrow> go_error + int" where
  "ProductsRepository_GetProductsCount db =
     (case Count db (Model_Product db) of
        Inl err \<Rightarrow> Inl err
      | Inr count \<Rightarrow> Inr count)"

definition ProductsRepository_GetProductsPaginatedWithFilters ::
  "database \<Rightarrow> int \<Rightarrow> int \<Rightarrow> string \<Rightarrow> float64 option \<Rightarrow> go_error + models_Product list" where
  "ProductsRepository_GetProductsPaginatedWithFilters db offset limit category priceLt =
     (let query = Preload ''Variants'' (Preload ''Category'' (Model_Product db));
          query = (if category \<noteq> []
                   then Where_categories_name category (Joins_categories db query)
                   else query);
          query = (case priceLt of
                     Some bound \<Rightarrow> Where_products_price_lt bound query
                   | None \<Rightarrow> query)
      in case Find db (Limit limit (Offset offset (Order_products_code_ASC db query))) of
           Inl err \<Rightarrow> Inl err
         | Inr products \<Rightarrow> Inr products)"

definition ProductsRepository_GetProductsCountWithFilters ::
  "database \<Rightarrow> string \<Rightarrow> float64 option \<Rightarrow> go_error + int" where
  "ProductsRepository_GetProductsCountWithFilters db category priceLt =
     (let query = Model_Product db;
          query = (if category \<noteq> []
                   then Where_categories_name category (Joins_categories db query)
                   else query);
          query = (case priceLt of
                     Some bound \<Rightarrow> Where_products_price_lt bound query
                   | None \<Rightarrow> query)
      in case Count db query of
           Inl err \<Rightarrow> Inl err
         | Inr count \<Rightarrow> Inr count)"

definition ProductsRepository_GetProductByCode :: "database \<Rightarrow> string \<Rightarrow> go_error + models_Product" where
  "ProductsRepository_GetProductByCode db code =
     (case First db (Where_code code
                 (Preload ''Variants'' (Preload ''Category'' (Model_Product db)))) of
        Inl err \<Rightarrow> Inl err
      | Inr product \<Rightarrow> Inr product)"

text \<open>\<open>NewProductsRepository\<close>: the repository over a store, behind its interface.\<close>

definition NewProductsRepository :: "database \<Rightarrow> ProductsRepositoryInterface" where
  "NewProductsRepository db =
     \<lparr>repo_GetAllProducts = ProductsRepository_GetAllProducts db,
      repo_GetProductsPaginated = ProductsRepository_GetProductsPaginated db,
      repo_GetProductsCount = ProductsRepository_GetProductsCount db,
      repo_GetProductsPaginatedWithFilters = ProductsRepository_GetProductsPaginatedWithFilters db,
      repo_GetProductsCountWithFilters = ProductsRepository_GetProductsCountWithFilters db,
      repo_GetProductByCode = ProductsRepository_GetProductByCode db\<rparr>"

section \<open>The HTTP handlers\<close>

text \<open>
  Modelled from the spec: package \<open>api\<close> (\<open>ErrorResponse\<close>, \<open>OKResponse\<close>,
  \<open>BuildErrorMessage\<close>) is not among the sources. A handler writes one response, an
  error with the status code the handler passes or a success with a body;
  \<open>api.ErrorResponse(w, status, message)\<close> and \<open>api.OKResponse(w, body)\<close> are the two
  writers. The message is a literal or the value of
  \<open>api.BuildErrorMessage(prefix, err)\<close>, kept here as the pair it is built from.
\<close>

datatype message = Text string | BuildErrorMessage string go_error

datatype 'a response = ErrorResponse nat message | OKResponse 'a

abbreviation StatusBadRequest :: nat where "StatusBadRequest \<equiv> 400"
abbreviation StatusNotFound :: nat where "StatusNotFound \<equiv> 404"
abbreviation StatusConflict :: nat where "StatusConflict \<equiv> 409"
abbreviation StatusInternalServerError :: nat where "StatusInternalServerError \<equiv> 500"
abbreviation StatusServiceUnavailable :: nat where "StatusServiceUnavailable \<equiv> 503"

text \<open>\<open>strings.TrimPrefix\<close>: the string without the prefix, or the string itself.\<close>

definition TrimPrefix :: "string \<Rightarrow> string \<Rightarrow> string" where
  "TrimPrefix s prefix =
     (if take (length prefix) s = prefix then drop (length prefix) s else s)"

definition GetCatalog :: "CatalogService \<Rightarrow> Response response" where
  "GetCatalog h =
     (case svc_GetProducts h of
        Inl err \<Rightarrow>
          if Error err = ''database connection failed''
          then ErrorResponse StatusServiceUnavailable
                 (BuildErrorMessage ''Database service is temporarily unavailable: '' err)
          else ErrorResponse StatusInternalServerError
                 (BuildErrorMessage ''Unable to retrieve products at this time: '' err)
      | Inr products \<Rightarrow>
          OKResponse \<lparr>Products = products, Total = int (length products)\<rparr>)"

text \<open>The argument \<open>path\<close> is \<open>r.URL.Path\<close>.\<close>

definition GetProductDetails :: "CatalogService \<Rightarrow> string \<Rightarrow> ProductDetails response" where
  "GetProductDetails h path =
     (let code = TrimPrefix path ''/catalog/''
      in if code = [] then ErrorResponse StatusBadRequest (Text ''Product code is required'')
         else
           (case svc_GetProductByCode h code of
              Inl err \<Rightarrow>
                if err = ErrRecordNotFound
                then ErrorResponse StatusNotFound (Text ''Product not found'')
                else if Error err = ''database connection failed''
                then ErrorResponse StatusServiceUnavailable
                       (BuildErrorMessage ''Database service is temporarily unavailable: '' err)
                else ErrorResponse StatusInternalServerError
                       (BuildErrorMessage ''Unable to retrieve product: '' err)
            | Inr product \<Rightarrow> OKResponse product))"

definition GetCategories :: "CategoriesRepositoryInterface \<Rightarrow> Category list response" where
  "GetCategories repo =
     (case repo_GetAllCategories repo of
        Inl err \<Rightarrow>
          if Error err = ''database connection failed''
          then ErrorResponse StatusServiceUnavailable
                 (BuildErrorMessage ''Database service is temporarily unavailable: '' err)
          else ErrorResponse StatusInternalServerError
                 (BuildErrorMessage ''Unable to retrieve categories at this time: '' err)
      | Inr dbCategories \<Rightarrow>
          OKResponse
            (range_assign (\<lambda>c. \<lparr>Category_Code = mCat_Code c, Category_Name = mCat_Name c\<rparr>)
               0 dbCategories
               (replicate (length dbCategories) \<lparr>Category_Code = [], Category_Name = []\<rparr>)))"

text \<open>
  The argument \<open>body\<close> is the outcome of decoding the request body as JSON: the decoder's
  error, or the request (a field missing from the JSON is the empty string).
\<close>

definition CreateCategory ::
  "CategoriesRepositoryInterface \<Rightarrow> go_error + CreateCategoryRequest \<Rightarrow> Category response" where
  "CreateCategory repo body =
     (case body of
        Inl err \<Rightarrow> ErrorResponse StatusBadRequest (Text ''Invalid JSON format'')
      | Inr req \<Rightarrow>
          if Req_Code req = [] then ErrorResponse StatusBadRequest (Text ''Code is required'')
          else if Req_Name req = [] then ErrorResponse StatusBadRequest (Text ''Name is required'')
          else
            (case repo_CreateCategory repo
                    \<lparr>mCat_ID = 0, mCat_Code = Req_Code req, mCat_Name = Req_Name req\<rparr> of
               Inl err \<Rightarrow>
                 if Error err = ''database connection failed''
                 then ErrorResponse StatusServiceUnavailable
                        (BuildErrorMessage ''Database service is temporarily unavailable: '' err)
                 else if Error err = ''UNIQUE constraint failed: categories.code'' \<or>
                         Error err = ''duplicate key value violates unique constraint''
                 then ErrorResponse StatusConflict (Text ''Category with this code already exists'')
                 else ErrorResponse StatusInternalServerError
                        (BuildErrorMessage ''Unable to create category: '' err)
             | Inr dbCategory \<Rightarrow>
                 OKResponse \<lparr>Category_Code = mCat_Code dbCategory,
                             Category_Name = mCat_Name dbCategory\<rparr>))"

text \<open>The status a response carries, when it is an error response.\<close>

fun error_status :: "'a response \<Rightarrow> nat option" where
  "error_status (ErrorResponse st m) = Some st"
| "error_status (OKResponse b) = None"

section \<open>The filter in the words of the specification\<close>

text \<open>
  A row matches a filter when it passes both fields of the filter: its category, found
  through the foreign key, has the filter's name (no restriction when the name is empty,
  which is how the code receives an absent category), and its price is strictly less
  than the bound (no restriction when the bound is absent).
\<close>

definition matches_filter :: "database \<Rightarrow> string \<Rightarrow> float64 option \<Rightarrow> models_Product \<Rightarrow> bool" where
  "matches_filter db category priceLt p \<longleftrightarrow>
     (category = [] \<or>
      (\<exists>c \<in> set (db_categories db).
         mProd_CategoryID p = Some (mCat_ID c) \<and> mCat_Name c = category)) \<and>
     (case priceLt of None \<Rightarrow> True | Some bound \<Rightarrow> dec_rat (mProd_Price p) < bound)"

text \<open>The page of the matching rows: ordered by code, then offset and limit.\<close>

definition filtered_page ::
  "database \<Rightarrow> int \<Rightarrow> int \<Rightarrow> string \<Rightarrow> float64 option \<Rightarrow> models_Product list" where
  "filtered_page db offset limit category priceLt =
     limit_rows limit (offset_rows offset
       (sort_by (db_collate db) mProd_Code
          (filter (matches_filter db category priceLt) (db_products db))))"

text \<open>The presentation record of a row: code, converted price, name of its category.\<close>

definition product_view :: "(Decimal \<Rightarrow> float64) \<Rightarrow> database \<Rightarrow> models_Product \<Rightarrow> Product" where
  "product_view f64 db p =
     \<lparr>Product_Code = mProd_Code p,
      Product_Price = f64 (mProd_Price p),
      Product_Category =
        (case find (\<lambda>c. mProd_CategoryID p = Some (mCat_ID c)) (db_categories db) of
           None \<Rightarrow> []
         | Some c \<Rightarrow> mCat_Name c)\<rparr>"

text \<open>The two filter clauses, which both filtered repository methods apply alike.\<close>

definition filter_clauses :: "database \<Rightarrow> string \<Rightarrow> float64 option \<Rightarrow> query \<Rightarrow> query" where
  "filter_clauses db category priceLt start =
     (let query = (if category \<noteq> []
                   then Where_categories_name category (Joins_categories db start)
                   else start);
          query = (case priceLt of
                     Some bound \<Rightarrow> Where_products_price_lt bound query
                   | None \<Rightarrow> query)
      in query)"

section \<open>Test doubles and sample data\<close>

text \<open>
  The doubles follow the mocks of the test files: a repository that answers from a fixed
  list, repositories and a service that answer with a fixed outcome. The sample store
  holds the categories of the schema script and a few products.
\<close>

definition MockProductsRepository :: "models_Product list \<Rightarrow> ProductsRepositoryInterface" where
  "MockProductsRepository ps =
     \<lparr>repo_GetAllProducts = Inr ps,
      repo_GetProductsPaginated = (\<lambda>offset limit. Inr ps),
      repo_GetProductsCount = Inr (int (length ps)),
      repo_GetProductsPaginatedWithFilters = (\<lambda>offset limit category priceLt. Inr ps),
      repo_GetProductsCountWithFilters = (\<lambda>category priceLt. Inr (int (length ps))),
      repo_GetProductByCode =
        (\<lambda>code. case find (\<lambda>p. mProd_Code p = code) ps of
                  None \<Rightarrow> Inl ErrRecordNotFound
                | Some p \<Rightarrow> Inr p)\<rparr>"

definition FailingProductsRepository :: "go_error \<Rightarrow> ProductsRepositoryInterface" where
  "FailingProductsRepository err =
     \<lparr>repo_GetAllProducts = Inl err,
      repo_GetProductsPaginated = (\<lambda>offset limit. Inl err),
      repo_GetProductsCount = Inl err,
      repo_GetProductsPaginatedWithFilters = (\<lambda>offset limit category priceLt. Inl err),
      repo_GetProductsCountWithFilters = (\<lambda>category priceLt. Inl err),
      repo_GetProductByCode = (\<lambda>code. Inl err)\<rparr>"

definition MockCatalogService :: "go_error + ProductDetails \<Rightarrow> CatalogService" where
  "MockCatalogService outcome =
     \<lparr>svc_GetProducts = Inr [],
      svc_GetProductsPaginated = (\<lambda>offset limit. Inr ([], 0)),
      svc_GetProductsPaginatedWithFilters = (\<lambda>offset limit category priceLt. Inr ([], 0)),
      svc_GetProductByCode = (\<lambda>code. outcome)\<rparr>"

definition FailingCategoriesRepository :: "go_error \<Rightarrow> CategoriesRepositoryInterface" where
  "FailingCategoriesRepository err =
     \<lparr>repo_GetAllCategories = Inl err,
      repo_GetCategoryByCode = (\<lambda>code. Inl err),
      repo_CreateCategory = (\<lambda>category. Inl err)\<rparr>"

definition cents :: "int \<Rightarrow> Decimal" where
  "cents n = \<lparr>dvalue = Some n, dexp = - 2\<rparr>"

definition unset_Decimal :: Decimal where
  "unset_Decimal = \<lparr>dvalue = None, dexp = 0\<rparr>"

definition Clothing :: models_Category where
  "Clothing = \<lparr>mCat_ID = 1, mCat_Code = ''CATGORY001'', mCat_Name = ''Clothing''\<rparr>"

definition Shoes :: models_Category where
  "Shoes = \<lparr>mCat_ID = 2, mCat_Code = ''CATGORY002'', mCat_Name = ''Shoes''\<rparr>"

definition Accessories :: models_Category where
  "Accessories = \<lparr>mCat_ID = 3, mCat_Code = ''CATGORY003'', mCat_Name = ''Accessories''\<rparr>"

definition sample_variants :: "models_Variant list" where
  "sample_variants =
     [\<lparr>mVar_ID = 1, mVar_ProductID = 1, mVar_Name = ''Small'', mVar_SKU = ''PROD001-S'',
        mVar_Price = cents 2999\<rparr>,
      \<lparr>mVar_ID = 2, mVar_ProductID = 1, mVar_Name = ''Large'', mVar_SKU = ''PROD001-L'',
        mVar_Price = \<lparr>dvalue = Some 0, dexp = 0\<rparr>\<rparr>,
      \<lparr>mVar_ID = 3, mVar_ProductID = 1, mVar_Name = ''Medium'', mVar_SKU = ''PROD001-M'',
        mVar_Price = unset_Decimal\<rparr>,
      \<lparr>mVar_ID = 4, mVar_ProductID = 1, mVar_Name = ''Extra'', mVar_SKU = ''PROD001-X'',
        mVar_Price = cents 3499\<rparr>]"

definition sample_row :: "nat \<Rightarrow> string \<Rightarrow> int \<Rightarrow> nat option \<Rightarrow> models_Product" where
  "sample_row i code price cat =
     \<lparr>mProd_ID = i, mProd_Code = code, mProd_Price = cents price, mProd_CategoryID = cat,
      mProd_Category = zero_Category, mProd_Variants = []\<rparr>"

text \<open>The product of the specification's scenario, as the repository hands it over.\<close>

definition PROD001 :: models_Product where
  "PROD001 =
     (sample_row 1 ''PROD001'' 2999 (Some 1))
       \<lparr>mProd_Category := Clothing, mProd_Variants := sample_variants\<rparr>"

text \<open>Bytewise order on strings, the collation of the sample store.\<close>

fun bytes_le :: "string \<Rightarrow> string \<Rightarrow> bool" where
  "bytes_le [] ys = True"
| "bytes_le (x # xs) [] = False"
| "bytes_le (x # xs) (y # ys) =
     (if x = y then bytes_le xs ys else (of_char x :: nat) < of_char y)"

definition sample_db :: database where
  "sample_db =
     \<lparr>db_products =
        [sample_row 2 ''PROD002'' 4999 (Some 2),
         sample_row 1 ''PROD001'' 2999 (Some 1),
         sample_row 6 ''PROD006'' 1999 (Some 2),
         sample_row 9 ''PROD009'' 3000 (Some 2),
         sample_row 10 ''PROD010'' 999 None],
      db_categories = [Clothing, Shoes, Accessories],
      db_variants = sample_variants,
      db_Error = None,
      db_collate = bytes_le\<rparr>"

text \<open>The text of PostgreSQL's failure on a duplicate key of \<open>categories.code\<close>.\<close>

definition duplicate_key_text :: string where
  "duplicate_key_text =
     ''ERROR: duplicate key value violates unique constraint '' @ [CHR 0x22] @
     ''categories_code_key'' @ [CHR 0x22] @ '' (SQLSTATE 23505)''"

definition empty_db :: database where
  "empty_db =
     \<lparr>db_products = [], db_categories = [Clothing, Shoes, Accessories], db_variants = [],
      db_Error = None, db_collate = bytes_le\<rparr>"

section \<open>Properties of the mapping loop\<close>

lemma range_assign_length: "length (range_assign f i xs out) = length out"
  by (induction xs arbitrary: i out) simp_all

lemma range_assign_below:
  "j < i \<Longrightarrow> range_assign f i xs out ! j = out ! j"
  by (induction xs arbitrary: i out) simp_all

lemma range_assign_nth:
  "i + length xs \<le> length out \<Longrightarrow> k < length xs \<Longrightarrow>
   range_assign f i xs out ! (i + k) = f (xs ! k)"
proof (induction xs arbitrary: i out k)
  case Nil
  then show ?case by simp
next
  case (Cons x xs)
  show ?case
  proof (cases k)
    case 0
    have "range_assign f (Suc i) xs (out[i := f x]) ! i = (out[i := f x]) ! i"
      by (rule range_assign_below) simp
    with 0 Cons.prems show ?thesis by simp
  next
    case (Suc k')
    have "range_assign f (Suc i) xs (out[i := f x]) ! (Suc i + k') = f (xs ! k')"
      using Cons.prems Suc by (intro Cons.IH) simp_all
    with Suc show ?thesis by simp
  qed
qed

lemma range_assign_map:
  "range_assign f 0 xs (replicate (length xs) z) = map f xs"
proof (rule nth_equalityI)
  show "length (range_assign f 0 xs (replicate (length xs) z)) = length (map f xs)"
    by (simp add: range_assign_length)
next
  fix k
  assume "k < length (range_assign f 0 xs (replicate (length xs) z))"
  then have k: "k < length xs" by (simp add: range_assign_length)
  have "range_assign f 0 xs (replicate (length xs) z) ! (0 + k) = f (xs ! k)"
    using k by (intro range_assign_nth) simp_all
  with k show "range_assign f 0 xs (replicate (length xs) z) ! k = map f xs ! k"
    by simp
qed

section \<open>Properties of the query model\<close>

lemma insert_by_fst:
  "map fst (insert_by le (\<lambda>(p, c). k p) x ys) = insert_by le k (fst x) (map fst ys)"
  by (induction ys) (auto split: prod.splits)

lemma sort_by_fst:
  "map fst (sort_by le (\<lambda>(p, c). k p) rows) = sort_by le k (map fst rows)"
  by (induction rows) (simp_all add: insert_by_fst)

lemma unique_key_hit:
  "distinct (map f xs) \<Longrightarrow>
   map (\<lambda>c. p) (filter (\<lambda>c. k = Some (f c) \<and> Q c) xs) =
     (if \<exists>c \<in> set xs. k = Some (f c) \<and> Q c then [p] else [])"
proof (induction xs)
  case Nil
  then show ?case by simp
next
  case (Cons x xs)
  show ?case
  proof (cases "k = Some (f x) \<and> Q x")
    case True
    with Cons.prems have "filter (\<lambda>c. k = Some (f c) \<and> Q c) xs = []"
      by (auto simp: filter_empty_conv)
    with True show ?thesis by simp
  next
    case False
    with Cons show ?thesis by auto
  qed
qed

lemma joined_rows:
  assumes "distinct (map mCat_ID cats)"
  shows "map fst
           (filter (\<lambda>(p, c). case c of None \<Rightarrow> False | Some c' \<Rightarrow> mCat_Name c' = category)
              (concat (map (\<lambda>(p, _). map (\<lambda>c. (p, Some c))
                         (filter (\<lambda>c. mProd_CategoryID p = Some (mCat_ID c)) cats))
                       (map (\<lambda>p. (p, None)) ps)))) =
         filter (\<lambda>p. \<exists>c \<in> set cats. mProd_CategoryID p = Some (mCat_ID c) \<and> mCat_Name c = category) ps"
proof (induction ps)
  case Nil
  then show ?case by simp
next
  case (Cons p ps)
  have "map fst (filter (\<lambda>(p, c). case c of None \<Rightarrow> False | Some c' \<Rightarrow> mCat_Name c' = category)
          (map (\<lambda>c. (p, Some c)) (filter (\<lambda>c. mProd_CategoryID p = Some (mCat_ID c)) cats))) =
        map (\<lambda>c. p) (filter (\<lambda>c. mProd_CategoryID p = Some (mCat_ID c) \<and> mCat_Name c = category) cats)"
    by (simp add: filter_map comp_def)
  also have "\<dots> = (if \<exists>c \<in> set cats. mProd_CategoryID p = Some (mCat_ID c) \<and> mCat_Name c = category
                    then [p] else [])"
    using assms by (rule unique_key_hit)
  finally show ?case using Cons by simp
qed


lemma map_products_map:
  "map_products f64 ps =
     map (\<lambda>p. \<lparr>Product_Code = mProd_Code p, Product_Price = f64 (mProd_Price p),
                Product_Category = mCat_Name (mProd_Category p)\<rparr>) ps"
  unfolding map_products_def by (rule range_assign_map)

lemma view_load_row:
  "\<lparr>Product_Code = mProd_Code (load_row db [''Category'', ''Variants''] p),
    Product_Price = f64 (mProd_Price (load_row db [''Category'', ''Variants''] p)),
    Product_Category = mCat_Name (mProd_Category (load_row db [''Category'', ''Variants''] p))\<rparr> =
   product_view f64 db p"
  by (simp add: load_row_def preload_one_def scan_columns_def product_view_def zero_Category_def
      split: option.splits)

lemma offset_rows_map: "offset_rows n (map f xs) = map f (offset_rows n xs)"
  by (simp add: offset_rows_def drop_map)

lemma limit_rows_map: "limit_rows n (map f xs) = map f (limit_rows n xs)"
  by (simp add: limit_rows_def take_map)

lemma filter_rows_fst:
  "map fst (filter (\<lambda>(p, c). P p) rows) = filter P (map fst rows)"
  by (induction rows) auto

lemma price_rows_fst:
  "map fst (q_rows (Where_products_price_lt bound q)) =
     filter (\<lambda>p. dec_rat (mProd_Price p) < bound) (map fst (q_rows q))"
  by (simp add: Where_products_price_lt_def filter_rows_fst)

lemma matches_filter_fun:
  "matches_filter db category priceLt =
     (\<lambda>p. (category = [] \<or>
           (\<exists>c \<in> set (db_categories db).
              mProd_CategoryID p = Some (mCat_ID c) \<and> mCat_Name c = category)) \<and>
          (case priceLt of None \<Rightarrow> True | Some bound \<Rightarrow> dec_rat (mProd_Price p) < bound))"
  by (rule ext) (simp add: matches_filter_def)

lemma sum_case_id: "(case x of Inl err \<Rightarrow> Inl err | Inr v \<Rightarrow> Inr v) = x"
  by (cases x) simp_all

lemma repo_page_clauses:
  "ProductsRepository_GetProductsPaginatedWithFilters db offset limit category priceLt =
     Find db (Limit limit (Offset offset (Order_products_code_ASC db
       (filter_clauses db category priceLt
          (Preload ''Variants'' (Preload ''Category'' (Model_Product db)))))))"
  by (simp add: ProductsRepository_GetProductsPaginatedWithFilters_def filter_clauses_def
      Let_def sum_case_id)

lemma repo_count_clauses:
  "ProductsRepository_GetProductsCountWithFilters db category priceLt =
     Count db (filter_clauses db category priceLt (Model_Product db))"
  by (simp add: ProductsRepository_GetProductsCountWithFilters_def filter_clauses_def
      Let_def sum_case_id)

lemma filter_clauses_preload: "q_preload (filter_clauses db category priceLt start) = q_preload start"
  by (simp add: filter_clauses_def Let_def Where_categories_name_def Joins_categories_def
      Where_products_price_lt_def split: option.splits)

lemma filter_clauses_rows:
  assumes "distinct (map mCat_ID (db_categories db))"
    and "q_rows start = map (\<lambda>p. (p, None)) (db_products db)"
  shows "map fst (q_rows (filter_clauses db category priceLt start)) =
         filter (matches_filter db category priceLt) (db_products db)"
proof -
  let ?inCat = "\<lambda>p. \<exists>c \<in> set (db_categories db).
                   mProd_CategoryID p = Some (mCat_ID c) \<and> mCat_Name c = category"
  have j: "map fst (q_rows (Where_categories_name category (Joins_categories db start))) =
           filter ?inCat (db_products db)"
    using joined_rows [OF assms(1), of category "db_products db"] assms(2)
    by (simp add: Where_categories_name_def Joins_categories_def)
  have c: "map fst (q_rows (if category \<noteq> []
                         then Where_categories_name category (Joins_categories db start)
                         else start)) =
           filter (\<lambda>p. category = [] \<or> ?inCat p) (db_products db)"
    using j assms(2) by (simp add: comp_def)
  show ?thesis
  proof (cases priceLt)
    case None
    then show ?thesis using c by (simp add: matches_filter_fun filter_clauses_def Let_def)
  next
    case (Some bound)
    then show ?thesis using c
      by (simp add: matches_filter_fun filter_clauses_def Let_def price_rows_fst)
  qed
qed

lemma Find_rows:
  "Find db q = (case db_Error db of Some err \<Rightarrow> Inl err
                | None \<Rightarrow> Inr (map (load_row db (q_preload q)) (map fst (q_rows q))))"
  by (simp add: Find_def comp_def case_prod_unfold split: option.splits)

lemma Count_rows:
  "Count db q = (case db_Error db of Some err \<Rightarrow> Inl err
                 | None \<Rightarrow> Inr (int (length (map fst (q_rows q)))))"
  by (simp add: Count_def split: option.splits)

lemma repo_page:
  assumes "distinct (map mCat_ID (db_categories db))"
  shows "ProductsRepository_GetProductsPaginatedWithFilters db offset limit category priceLt =
          (case db_Error db of Some err \<Rightarrow> Inl err
           | None \<Rightarrow> Inr (map (load_row db [''Category'', ''Variants''])
                           (filtered_page db offset limit category priceLt)))"
proof -
  let ?start = "Preload ''Variants'' (Preload ''Category'' (Model_Product db))"
  let ?query = "filter_clauses db category priceLt ?start"
  have r0: "q_rows ?start = map (\<lambda>p. (p, None)) (db_products db)"
    by (simp add: Preload_def Model_Product_def)
  have rows: "map fst (q_rows ?query) = filter (matches_filter db category priceLt) (db_products db)"
    using assms r0 by (rule filter_clauses_rows)
  have pre: "q_preload (Limit limit (Offset offset (Order_products_code_ASC db ?query))) =
             [''Category'', ''Variants'']"
    by (simp add: Limit_def Offset_def Order_products_code_ASC_def filter_clauses_preload
        Preload_def Model_Product_def)
  have "map fst (q_rows (Limit limit (Offset offset (Order_products_code_ASC db ?query)))) =
        limit_rows limit (offset_rows offset (sort_by (db_collate db) mProd_Code (map fst (q_rows ?query))))"
    by (simp add: Limit_def Offset_def Order_products_code_ASC_def sort_by_fst
        flip: limit_rows_map offset_rows_map)
  then have "map fst (q_rows (Limit limit (Offset offset (Order_products_code_ASC db ?query)))) =
        filtered_page db offset limit category priceLt"
    by (simp only: rows filtered_page_def)
  then show ?thesis
    by (simp only: repo_page_clauses Find_rows pre)
qed

lemma repo_count:
  assumes "distinct (map mCat_ID (db_categories db))"
  shows "ProductsRepository_GetProductsCountWithFilters db category priceLt =
          (case db_Error db of Some err \<Rightarrow> Inl err
           | None \<Rightarrow> Inr (int (length (filter (matches_filter db category priceLt)
                                        (db_products db)))))"
proof -
  have "q_rows (Model_Product db) = map (\<lambda>p. (p, None)) (db_products db)"
    by (simp add: Model_Product_def)
  with assms have "map fst (q_rows (filter_clauses db category priceLt (Model_Product db))) =
      filter (matches_filter db category priceLt) (db_products db)"
    by (rule filter_clauses_rows)
  then show ?thesis
    by (simp only: repo_count_clauses Count_rows)
qed


lemma set_insert_by: "set (insert_by le key x ys) = insert x (set ys)"
  by (induction ys) auto

lemma set_sort_by: "set (sort_by le key xs) = set xs"
  by (induction xs) (simp_all add: set_insert_by)

lemma set_limit_rows: "set (limit_rows n xs) \<subseteq> set xs"
  by (auto simp: limit_rows_def dest: in_set_takeD)

lemma set_offset_rows: "set (offset_rows n xs) \<subseteq> set xs"
  by (auto simp: offset_rows_def dest: in_set_dropD)

lemma filtered_page_subset:
  "set (filtered_page db offset limit category priceLt) \<subseteq>
     {p \<in> set (db_products db). matches_filter db category priceLt p}"
proof -
  have "set (filtered_page db offset limit category priceLt) \<subseteq>
        set (sort_by (db_collate db) mProd_Code
               (filter (matches_filter db category priceLt) (db_products db)))"
    unfolding filtered_page_def
    by (rule subset_trans [OF set_limit_rows set_offset_rows])
  then show ?thesis by (simp add: set_sort_by)
qed

lemma IsZero_iff: "IsZero d \<longleftrightarrow> dvalue d = None \<or> dvalue d = Some 0"
  by (simp add: IsZero_def Sign_def sgn_if split: option.splits)

lemma GetProductByCode_Inr:
  "repo_GetProductByCode repo code = Inr dbProduct \<Longrightarrow>
   GetProductByCode f64 repo code =
     Inr \<lparr>Details_Code = mProd_Code dbProduct,
          Details_Price = f64 (mProd_Price dbProduct),
          Details_Category = mCat_Name (mProd_Category dbProduct),
          Details_Variants = map (variant_of f64 dbProduct) (mProd_Variants dbProduct)\<rparr>"
  by (simp add: GetProductByCode_def range_assign_map)

lemma GetProductByCode_Inl:
  "repo_GetProductByCode repo code = Inl err \<Longrightarrow> GetProductByCode f64 repo code = Inl err"
  by (simp add: GetProductByCode_def)

lemma Where_code_no_row:
  "code \<notin> set (map mProd_Code (db_products db)) \<Longrightarrow>
   q_rows (Where_code code (Preload a (Preload b (Model_Product db)))) = []"
  by (auto simp: Where_code_def Preload_def Model_Product_def filter_empty_conv)

lemma repo_GetProductByCode_missing:
  assumes "db_Error db = None" and "code \<notin> set (map mProd_Code (db_products db))"
  shows "ProductsRepository_GetProductByCode db code = Inl ErrRecordNotFound"
  using assms
  by (simp add: ProductsRepository_GetProductByCode_def First_def Where_code_no_row)

lemma TrimPrefix_append: "TrimPrefix (prefix @ s) prefix = s"
  by (simp add: TrimPrefix_def)

section \<open>Price inheritance of variants\<close>

text \<open>
  C1. Whenever the repository hands over a product, \<open>GetProductByCode\<close> returns a product
  whose price is the converted price of the stored product, with one variant per stored
  variant; the price of each variant is the product's price when the stored variant's
  override price is absent (the unset decimal) or exactly zero, and the converted
  override price otherwise.
\<close>

theorem effective_price_inheritance:
  assumes "repo_GetProductByCode repo code = Inr dbProduct"
  shows "case GetProductByCode f64 repo code of
           Inl err \<Rightarrow> False
         | Inr d \<Rightarrow>
             Details_Price d = f64 (mProd_Price dbProduct) \<and>
             length (Details_Variants d) = length (mProd_Variants dbProduct) \<and>
             (\<forall>i < length (mProd_Variants dbProduct).
                Variant_Price (Details_Variants d ! i) =
                  (if dvalue (mVar_Price (mProd_Variants dbProduct ! i)) = None \<or>
                      dvalue (mVar_Price (mProd_Variants dbProduct ! i)) = Some 0
                   then Details_Price d
                   else f64 (mVar_Price (mProd_Variants dbProduct ! i))))"
  by (simp add: GetProductByCode_Inr [OF assms] variant_of_def IsZero_iff Let_def)

theorem effective_price_inheritance_witness:
  "repo_GetProductByCode (MockProductsRepository [PROD001]) ''PROD001'' = Inr PROD001 \<and>
   (case GetProductByCode dec_rat (MockProductsRepository [PROD001]) ''PROD001'' of
      Inl err \<Rightarrow> False
    | Inr d \<Rightarrow>
        Details_Price d = 2999 / 100 \<and>
        Variant_Price (Details_Variants d ! 0) = 2999 / 100 \<and>
        Variant_Price (Details_Variants d ! 1) = Details_Price d \<and>
        Variant_Price (Details_Variants d ! 2) = Details_Price d \<and>
        Variant_Price (Details_Variants d ! 3) = 3499 / 100)"
proof -
  have h: "repo_GetProductByCode (MockProductsRepository [PROD001]) ''PROD001'' = Inr PROD001"
    by (simp add: MockProductsRepository_def PROD001_def sample_row_def)
  note t = effective_price_inheritance [OF h, of dec_rat]
  obtain d where d: "GetProductByCode dec_rat (MockProductsRepository [PROD001]) ''PROD001'' = Inr d"
    using t by (cases "GetProductByCode dec_rat (MockProductsRepository [PROD001]) ''PROD001''")
      simp_all
  have v: "mProd_Variants PROD001 = sample_variants" "mProd_Price PROD001 = cents 2999"
    by (simp_all add: PROD001_def sample_row_def)
  from t d have p: "Details_Price d = dec_rat (cents 2999)"
    and a: "\<And>i. i < length sample_variants \<Longrightarrow>
              Variant_Price (Details_Variants d ! i) =
                (if dvalue (mVar_Price (sample_variants ! i)) = None \<or>
                    dvalue (mVar_Price (sample_variants ! i)) = Some 0
                 then Details_Price d
                 else dec_rat (mVar_Price (sample_variants ! i)))"
    by (simp_all add: v)
  have c: "dec_rat (cents 2999) = 2999 / 100" "dec_rat (cents 3499) = 3499 / 100"
    by (simp_all add: cents_def dec_rat_def)
  have "Variant_Price (Details_Variants d ! 0) = 2999 / 100"
    using a [of 0] by (simp add: sample_variants_def c) (simp add: cents_def)
  moreover have "Variant_Price (Details_Variants d ! 1) = Details_Price d"
    using a [of 1] by (simp add: sample_variants_def)
  moreover have "Variant_Price (Details_Variants d ! 2) = Details_Price d"
    using a [of 2] by (simp add: sample_variants_def unset_Decimal_def)
  moreover have "Variant_Price (Details_Variants d ! 3) = 3499 / 100"
    using a [of 3] by (simp add: sample_variants_def c) (simp add: cents_def)
  ultimately show ?thesis using h d p by (simp add: c)
qed

lemma scenario_PROD001:
  "GetProductByCode dec_rat (MockProductsRepository [PROD001]) ''PROD001'' =
     Inr \<lparr>Details_Code = ''PROD001'', Details_Price = 2999 / 100, Details_Category = ''Clothing'',
          Details_Variants =
            [\<lparr>Variant_Name = ''Small'', Variant_SKU = ''PROD001-S'', Variant_Price = 2999 / 100\<rparr>,
             \<lparr>Variant_Name = ''Large'', Variant_SKU = ''PROD001-L'', Variant_Price = 2999 / 100\<rparr>,
             \<lparr>Variant_Name = ''Medium'', Variant_SKU = ''PROD001-M'', Variant_Price = 2999 / 100\<rparr>,
             \<lparr>Variant_Name = ''Extra'', Variant_SKU = ''PROD001-X'', Variant_Price = 3499 / 100\<rparr>]\<rparr>"
  by (simp add: GetProductByCode_def MockProductsRepository_def PROD001_def sample_row_def
      sample_variants_def Clothing_def cents_def unset_Decimal_def dec_rat_def variant_of_def
      IsZero_def Sign_def Let_def)


section \<open>Filtered, paginated listing\<close>

text \<open>
  C2. Over a store whose category identities are unique (the primary key), the filtered
  listing fails with the store's failure when the store cannot be reached, and otherwise
  returns the presentation records of one page of the rows matching the filter together
  with the number of all rows matching the same filter. Matching is by category name,
  by a strict less-than on the price, both at once, and a field that is absent does not
  restrict; every row of the page is a row of the table that matches.
\<close>

theorem filtered_listing_matches_filter:
  assumes "distinct (map mCat_ID (db_categories db))"
  shows "GetProductsPaginatedWithFilters f64 (NewProductsRepository db) offset limit category priceLt =
          (case db_Error db of
             Some err \<Rightarrow> Inl err
           | None \<Rightarrow>
               Inr (map (product_view f64 db) (filtered_page db offset limit category priceLt),
                    int (length (filter (matches_filter db category priceLt) (db_products db))))) \<and>
         (\<forall>p \<in> set (filtered_page db offset limit category priceLt).
            p \<in> set (db_products db) \<and>
            (category = [] \<or>
             (\<exists>c \<in> set (db_categories db).
                mProd_CategoryID p = Some (mCat_ID c) \<and> mCat_Name c = category)) \<and>
            (case priceLt of None \<Rightarrow> True | Some bound \<Rightarrow> dec_rat (mProd_Price p) < bound))"
proof
  show "GetProductsPaginatedWithFilters f64 (NewProductsRepository db) offset limit category priceLt =
          (case db_Error db of
             Some err \<Rightarrow> Inl err
           | None \<Rightarrow>
               Inr (map (product_view f64 db) (filtered_page db offset limit category priceLt),
                    int (length (filter (matches_filter db category priceLt) (db_products db)))))"
    by (simp add: GetProductsPaginatedWithFilters_def NewProductsRepository_def
        repo_page [OF assms] repo_count [OF assms] map_products_map comp_def view_load_row
        split: option.splits)
next
  show "\<forall>p \<in> set (filtered_page db offset limit category priceLt).
            p \<in> set (db_products db) \<and>
            (category = [] \<or>
             (\<exists>c \<in> set (db_categories db).
                mProd_CategoryID p = Some (mCat_ID c) \<and> mCat_Name c = category)) \<and>
            (case priceLt of None \<Rightarrow> True | Some bound \<Rightarrow> dec_rat (mProd_Price p) < bound)"
    using filtered_page_subset [of db offset limit category priceLt]
    by (auto simp: matches_filter_def)
qed

lemma sample_db_matching:
  "filter (matches_filter sample_db ''Shoes'' (Some 30)) (db_products sample_db) =
     [sample_row 6 ''PROD006'' 1999 (Some 2)]"
  by (simp add: sample_db_def matches_filter_def sample_row_def cents_def dec_rat_def
      Clothing_def Shoes_def Accessories_def)

lemma sample_db_page:
  "filtered_page sample_db 0 10 ''Shoes'' (Some 30) = [sample_row 6 ''PROD006'' 1999 (Some 2)]"
  unfolding filtered_page_def sample_db_matching
  by (simp add: limit_rows_def offset_rows_def)

theorem filtered_listing_matches_filter_witness:
  "distinct (map mCat_ID (db_categories sample_db)) \<and>
   GetProductsPaginatedWithFilters dec_rat (NewProductsRepository sample_db) 0 10 ''Shoes'' (Some 30) =
     Inr ([\<lparr>Product_Code = ''PROD006'', Product_Price = 1999 / 100, Product_Category = ''Shoes''\<rparr>], 1)"
proof -
  have h: "distinct (map mCat_ID (db_categories sample_db))"
    by (simp add: sample_db_def Clothing_def Shoes_def Accessories_def)
  have e: "db_Error sample_db = None"
    by (simp add: sample_db_def)
  have v: "product_view dec_rat sample_db (sample_row 6 ''PROD006'' 1999 (Some 2)) =
           \<lparr>Product_Code = ''PROD006'', Product_Price = 1999 / 100, Product_Category = ''Shoes''\<rparr>"
    by (simp add: product_view_def sample_db_def sample_row_def cents_def dec_rat_def
        Clothing_def Shoes_def Accessories_def)
  from filtered_listing_matches_filter [OF h, of dec_rat 0 10 "''Shoes''" "Some 30"]
  have "GetProductsPaginatedWithFilters dec_rat (NewProductsRepository sample_db) 0 10 ''Shoes'' (Some 30) =
     Inr ([\<lparr>Product_Code = ''PROD006'', Product_Price = 1999 / 100, Product_Category = ''Shoes''\<rparr>], 1)"
    by (simp add: e sample_db_page sample_db_matching v)
  with h show ?thesis by (rule conjI)
qed


section \<open>Products that are not in the store\<close>

lemma GetProductDetails_code:
  "GetProductDetails h (''/catalog/'' @ code) =
     (if code = [] then ErrorResponse StatusBadRequest (Text ''Product code is required'')
      else
        (case svc_GetProductByCode h code of
           Inl err \<Rightarrow>
             if err = ErrRecordNotFound
             then ErrorResponse StatusNotFound (Text ''Product not found'')
             else if Error err = ''database connection failed''
             then ErrorResponse StatusServiceUnavailable
                    (BuildErrorMessage ''Database service is temporarily unavailable: '' err)
             else ErrorResponse StatusInternalServerError
                    (BuildErrorMessage ''Unable to retrieve product: '' err)
         | Inr product \<Rightarrow> OKResponse product))"
  unfolding GetProductDetails_def TrimPrefix_append by (simp add: Let_def)

text \<open>
  C3. For every code for which a store that answers holds no product with exactly that
  code (codes are compared as they are, letter case included), \<open>GetProductByCode\<close> fails
  with the not-found sentinel, and the endpoint, which the route \<open>GET /catalog/{code}\<close>
  hands a code that is not empty, reports it as 404 \<open>Product not found\<close>.
\<close>

theorem missing_product_not_found:
  assumes "db_Error db = None" and "code \<notin> set (map mProd_Code (db_products db))"
  shows "GetProductByCode f64 (NewProductsRepository db) code = Inl ErrRecordNotFound \<and>
         (code \<noteq> [] \<longrightarrow>
            GetProductDetails (NewCatalogService f64 (NewProductsRepository db))
              (''/catalog/'' @ code) =
              ErrorResponse StatusNotFound (Text ''Product not found''))"
proof -
  have "GetProductByCode f64 (NewProductsRepository db) code = Inl ErrRecordNotFound"
    by (rule GetProductByCode_Inl)
       (simp add: NewProductsRepository_def repo_GetProductByCode_missing [OF assms])
  moreover
  from this
  have "code \<noteq> [] \<longrightarrow>
          GetProductDetails (NewCatalogService f64 (NewProductsRepository db))
            (''/catalog/'' @ code) =
            ErrorResponse StatusNotFound (Text ''Product not found'')"
    by (subst GetProductDetails_code) (simp add: NewCatalogService_def)
  ultimately show ?thesis by (rule conjI)
qed

theorem missing_product_not_found_witness:
  "db_Error sample_db = None \<and>
   ''prod001'' \<notin> set (map mProd_Code (db_products sample_db)) \<and>
   ''prod001'' \<noteq> [] \<and>
   GetProductByCode dec_rat (NewProductsRepository sample_db) ''prod001'' = Inl ErrRecordNotFound \<and>
   GetProductDetails (NewCatalogService dec_rat (NewProductsRepository sample_db)) ''/catalog/prod001'' =
     ErrorResponse StatusNotFound (Text ''Product not found'')"
proof -
  have e: "db_Error sample_db = None"
    and n: "''prod001'' \<notin> set (map mProd_Code (db_products sample_db))"
    by (simp_all add: sample_db_def sample_row_def)
  from missing_product_not_found [OF e n, of dec_rat] e n show ?thesis by simp
qed

section \<open>Validation of a category to create\<close>

text \<open>
  C4. Whatever the repository, a decoded request with an empty code is answered 400
  \<open>Code is required\<close>, also when its name is empty as well; a request with a code and an
  empty name is answered 400 \<open>Name is required\<close>.
\<close>

theorem create_category_validation_order:
  "(Req_Code req = [] \<longrightarrow>
      CreateCategory repo (Inr req) = ErrorResponse StatusBadRequest (Text ''Code is required'')) \<and>
   (Req_Code req \<noteq> [] \<and> Req_Name req = [] \<longrightarrow>
      CreateCategory repo (Inr req) = ErrorResponse StatusBadRequest (Text ''Name is required''))"
  by (simp add: CreateCategory_def)

theorem create_category_validation_order_witness:
  "CreateCategory (FailingCategoriesRepository ErrRecordNotFound)
     (Inr \<lparr>Req_Code = [], Req_Name = ''Electronics''\<rparr>) =
     ErrorResponse StatusBadRequest (Text ''Code is required'') \<and>
   CreateCategory (FailingCategoriesRepository ErrRecordNotFound)
     (Inr \<lparr>Req_Code = [], Req_Name = []\<rparr>) =
     ErrorResponse StatusBadRequest (Text ''Code is required'') \<and>
   CreateCategory (FailingCategoriesRepository ErrRecordNotFound)
     (Inr \<lparr>Req_Code = ''CATGORY004'', Req_Name = []\<rparr>) =
     ErrorResponse StatusBadRequest (Text ''Name is required'')"
  using create_category_validation_order
          [of "\<lparr>Req_Code = [], Req_Name = ''Electronics''\<rparr>"
              "FailingCategoriesRepository ErrRecordNotFound"]
        create_category_validation_order
          [of "\<lparr>Req_Code = [], Req_Name = []\<rparr>" "FailingCategoriesRepository ErrRecordNotFound"]
        create_category_validation_order
          [of "\<lparr>Req_Code = ''CATGORY004'', Req_Name = []\<rparr>"
              "FailingCategoriesRepository ErrRecordNotFound"]
  by simp


section \<open>Classification of store failures\<close>

text \<open>
  The handler's test for a uniqueness violation: for a request with a code and a name
  whose creation fails, the status is 409 exactly when the failure's text equals one of
  the two literals.
\<close>

lemma create_category_conflict_iff:
  assumes "Req_Code req \<noteq> []" and "Req_Name req \<noteq> []"
    and "repo_CreateCategory repo
           \<lparr>mCat_ID = 0, mCat_Code = Req_Code req, mCat_Name = Req_Name req\<rparr> = Inl err"
  shows "error_status (CreateCategory repo (Inr req)) = Some StatusConflict \<longleftrightarrow>
            Error err = ''UNIQUE constraint failed: categories.code'' \<or>
            Error err = ''duplicate key value violates unique constraint''"
  using assms by (auto simp: CreateCategory_def)

text \<open>
  C5. The store of this server is PostgreSQL, whose failure on a duplicate code reads
  \<open>ERROR: duplicate key value violates unique constraint "categories_code_key"
  (SQLSTATE 23505)\<close>. The text names the constraint and equals neither literal of the
  handler, so the creation of a category whose code exists is answered 500
  \<open>Unable to create category\<close> and not 409.
\<close>

theorem create_category_duplicate_key_is_internal:
  "CreateCategory (FailingCategoriesRepository (ErrorsNew duplicate_key_text))
     (Inr \<lparr>Req_Code = ''CATGORY001'', Req_Name = ''Electronics''\<rparr>) =
     ErrorResponse StatusInternalServerError
       (BuildErrorMessage ''Unable to create category: '' (ErrorsNew duplicate_key_text)) \<and>
   error_status
     (CreateCategory (FailingCategoriesRepository (ErrorsNew duplicate_key_text))
        (Inr \<lparr>Req_Code = ''CATGORY001'', Req_Name = ''Electronics''\<rparr>)) \<noteq> Some StatusConflict"
  by (simp add: CreateCategory_def FailingCategoriesRepository_def duplicate_key_text_def)

text \<open>
  C6. A failure whose text is the connectivity-failure text \<open>database connection failed\<close>
  is answered 503, never 500: by the catalog list, whether the service or the repository
  behind the service reports it, by the category list, and by the category creation
  once the request has a code and a name.
\<close>

theorem connectivity_failure_service_unavailable:
  assumes "Error err = ''database connection failed''"
  shows "(svc_GetProducts h = Inl err \<longrightarrow>
            GetCatalog h = ErrorResponse StatusServiceUnavailable
              (BuildErrorMessage ''Database service is temporarily unavailable: '' err)) \<and>
         (repo_GetAllProducts prepo = Inl err \<longrightarrow>
            GetCatalog (NewCatalogService f64 prepo) = ErrorResponse StatusServiceUnavailable
              (BuildErrorMessage ''Database service is temporarily unavailable: '' err)) \<and>
         (repo_GetAllCategories crepo = Inl err \<longrightarrow>
            GetCategories crepo = ErrorResponse StatusServiceUnavailable
              (BuildErrorMessage ''Database service is temporarily unavailable: '' err)) \<and>
         (Req_Code req \<noteq> [] \<and> Req_Name req \<noteq> [] \<and>
          repo_CreateCategory crepo
            \<lparr>mCat_ID = 0, mCat_Code = Req_Code req, mCat_Name = Req_Name req\<rparr> = Inl err \<longrightarrow>
            CreateCategory crepo (Inr req) = ErrorResponse StatusServiceUnavailable
              (BuildErrorMessage ''Database service is temporarily unavailable: '' err))"
  using assms
  by (simp add: GetCatalog_def GetCategories_def CreateCategory_def NewCatalogService_def
      GetProducts_def)

theorem connectivity_failure_service_unavailable_witness:
  "Error (ErrorsNew ''database connection failed'') = ''database connection failed'' \<and>
   GetCatalog (MockCatalogService (Inl ErrRecordNotFound)
                 \<lparr>svc_GetProducts := Inl (ErrorsNew ''database connection failed'')\<rparr>) =
     ErrorResponse StatusServiceUnavailable
       (BuildErrorMessage ''Database service is temporarily unavailable: ''
          (ErrorsNew ''database connection failed'')) \<and>
   GetCatalog (NewCatalogService dec_rat
                 (FailingProductsRepository (ErrorsNew ''database connection failed''))) =
     ErrorResponse StatusServiceUnavailable
       (BuildErrorMessage ''Database service is temporarily unavailable: ''
          (ErrorsNew ''database connection failed'')) \<and>
   GetCategories (FailingCategoriesRepository (ErrorsNew ''database connection failed'')) =
     ErrorResponse StatusServiceUnavailable
       (BuildErrorMessage ''Database service is temporarily unavailable: ''
          (ErrorsNew ''database connection failed'')) \<and>
   CreateCategory (FailingCategoriesRepository (ErrorsNew ''database connection failed''))
     (Inr \<lparr>Req_Code = ''CATGORY004'', Req_Name = ''Electronics''\<rparr>) =
     ErrorResponse StatusServiceUnavailable
       (BuildErrorMessage ''Database service is temporarily unavailable: ''
          (ErrorsNew ''database connection failed''))"
proof -
  let ?err = "ErrorsNew ''database connection failed''"
  have e: "Error ?err = ''database connection failed''"
    by simp
  from connectivity_failure_service_unavailable [OF e,
         of "MockCatalogService (Inl ErrRecordNotFound)\<lparr>svc_GetProducts := Inl ?err\<rparr>"
            "FailingProductsRepository ?err" dec_rat "FailingCategoriesRepository ?err"
            "\<lparr>Req_Code = ''CATGORY004'', Req_Name = ''Electronics''\<rparr>"]
  show ?thesis
    by (simp add: MockCatalogService_def FailingProductsRepository_def
        FailingCategoriesRepository_def)
qed

section \<open>The list of all products\<close>

text \<open>
  C7. When the repository succeeds with no rows, \<open>GetProducts\<close> succeeds with the empty
  sequence.
\<close>

theorem empty_store_empty_list:
  assumes "repo_GetAllProducts repo = Inr []"
  shows "GetProducts f64 repo = Inr []"
  using assms by (simp add: GetProducts_def)

lemma repo_GetAllProducts_empty:
  "db_Error db = None \<Longrightarrow> db_products db = [] \<Longrightarrow>
   repo_GetAllProducts (NewProductsRepository db) = Inr []"
  by (simp add: NewProductsRepository_def ProductsRepository_GetAllProducts_def Find_def
      Preload_def Model_Product_def)

theorem empty_store_empty_list_witness:
  "repo_GetAllProducts (NewProductsRepository empty_db) = Inr [] \<and>
   GetProducts dec_rat (NewProductsRepository empty_db) = Inr []"
proof -
  have h: "repo_GetAllProducts (NewProductsRepository empty_db) = Inr []"
    by (rule repo_GetAllProducts_empty) (simp_all add: empty_db_def)
  from h empty_store_empty_list [OF h, of dec_rat] show ?thesis by (rule conjI)
qed


section \<open>Order of the variants\<close>

text \<open>
  C8. Whenever the repository hands over a product, the returned product has exactly as
  many variants as the stored one, and its variant at each position is made from the
  stored variant at the same position: same name, same SKU, and the price the
  inheritance rule gives that stored variant.
\<close>

theorem variants_keep_store_order:
  assumes "repo_GetProductByCode repo code = Inr dbProduct"
  shows "case GetProductByCode f64 repo code of
           Inl err \<Rightarrow> False
         | Inr d \<Rightarrow>
             length (Details_Variants d) = length (mProd_Variants dbProduct) \<and>
             (\<forall>i < length (mProd_Variants dbProduct).
                Details_Variants d ! i = variant_of f64 dbProduct (mProd_Variants dbProduct ! i) \<and>
                Variant_Name (Details_Variants d ! i) = mVar_Name (mProd_Variants dbProduct ! i) \<and>
                Variant_SKU (Details_Variants d ! i) = mVar_SKU (mProd_Variants dbProduct ! i))"
  by (simp add: GetProductByCode_Inr [OF assms] variant_of_def Let_def)

theorem variants_keep_store_order_witness:
  "repo_GetProductByCode (MockProductsRepository [PROD001]) ''PROD001'' = Inr PROD001 \<and>
   (case GetProductByCode dec_rat (MockProductsRepository [PROD001]) ''PROD001'' of
      Inl err \<Rightarrow> False
    | Inr d \<Rightarrow>
        length (Details_Variants d) = 4 \<and>
        Variant_SKU (Details_Variants d ! 0) = ''PROD001-S'' \<and>
        Variant_SKU (Details_Variants d ! 1) = ''PROD001-L'' \<and>
        Variant_SKU (Details_Variants d ! 2) = ''PROD001-M'' \<and>
        Variant_SKU (Details_Variants d ! 3) = ''PROD001-X'')"
proof -
  have h: "repo_GetProductByCode (MockProductsRepository [PROD001]) ''PROD001'' = Inr PROD001"
    by (simp add: MockProductsRepository_def PROD001_def sample_row_def)
  note t = variants_keep_store_order [OF h, of dec_rat]
  obtain d where d: "GetProductByCode dec_rat (MockProductsRepository [PROD001]) ''PROD001'' = Inr d"
    using t by (cases "GetProductByCode dec_rat (MockProductsRepository [PROD001]) ''PROD001''")
      simp_all
  have v: "mProd_Variants PROD001 = sample_variants"
    by (simp add: PROD001_def sample_row_def)
  from t d have l: "length (Details_Variants d) = length sample_variants"
    and a: "\<And>i. i < length sample_variants \<Longrightarrow>
              Variant_SKU (Details_Variants d ! i) = mVar_SKU (sample_variants ! i)"
    by (simp_all add: v variant_of_def Let_def)
  have "length (Details_Variants d) = 4"
    using l by (simp add: sample_variants_def)
  moreover have "Variant_SKU (Details_Variants d ! 0) = ''PROD001-S''"
    using a [of 0] by (simp add: sample_variants_def)
  moreover have "Variant_SKU (Details_Variants d ! 1) = ''PROD001-L''"
    using a [of 1] by (simp add: sample_variants_def)
  moreover have "Variant_SKU (Details_Variants d ! 2) = ''PROD001-M''"
    using a [of 2] by (simp add: sample_variants_def)
  moreover have "Variant_SKU (Details_Variants d ! 3) = ''PROD001-X''"
    using a [of 3] by (simp add: sample_variants_def)
  ultimately show ?thesis using h d by simp
qed

section \<open>The catalog response\<close>

text \<open>
  C9. Every successful response of the catalog list carries a total equal to the number
  of products in the same response.
\<close>

theorem catalog_total_is_page_length:
  assumes "GetCatalog h = OKResponse resp"
  shows "Total resp = int (length (Products resp))"
  using assms by (auto simp: GetCatalog_def split: sum.splits if_splits)

theorem catalog_total_is_page_length_witness:
  "GetCatalog (NewCatalogService dec_rat (MockProductsRepository [PROD001])) =
     OKResponse \<lparr>Products = [\<lparr>Product_Code = ''PROD001'', Product_Price = 2999 / 100,
                                Product_Category = ''Clothing''\<rparr>],
                  Total = 1\<rparr> \<and>
   Total \<lparr>Products = [\<lparr>Product_Code = ''PROD001'', Product_Price = 2999 / 100,
                       Product_Category = ''Clothing''\<rparr>],
          Total = 1\<rparr> =
   int (length (Products \<lparr>Products = [\<lparr>Product_Code = ''PROD001'', Product_Price = 2999 / 100,
                                        Product_Category = ''Clothing''\<rparr>],
                           Total = 1\<rparr>))"
proof -
  have h: "GetCatalog (NewCatalogService dec_rat (MockProductsRepository [PROD001])) =
     OKResponse \<lparr>Products = [\<lparr>Product_Code = ''PROD001'', Product_Price = 2999 / 100,
                                Product_Category = ''Clothing''\<rparr>],
                  Total = 1\<rparr>"
    by (simp add: GetCatalog_def NewCatalogService_def GetProducts_def MockProductsRepository_def
        map_products_map PROD001_def sample_row_def Clothing_def cents_def dec_rat_def)
  from h catalog_total_is_page_length [OF h] show ?thesis by (rule conjI)
qed

section \<open>Not found by identity, not by text\<close>

text \<open>
  C10. When the endpoint asks the service for a code (the path names a code that is not
  empty) and the service fails, the response is 404 exactly when the failure is the
  sentinel \<open>ErrRecordNotFound\<close> itself: the sentinel is answered 404
  \<open>Product not found\<close>, and an error that is not the sentinel but reads
  \<open>record not found\<close>, as the sentinel does, is answered 500
  \<open>Unable to retrieve product\<close>.
\<close>

theorem not_found_text_is_internal:
  assumes "TrimPrefix path ''/catalog/'' = code" and "code \<noteq> []"
    and "svc_GetProductByCode h code = Inl err"
  shows "(error_status (GetProductDetails h path) = Some StatusNotFound \<longleftrightarrow>
            err = ErrRecordNotFound) \<and>
         (err = ErrRecordNotFound \<longrightarrow>
            GetProductDetails h path = ErrorResponse StatusNotFound (Text ''Product not found'')) \<and>
         (err \<noteq> ErrRecordNotFound \<and> Error err = ''record not found'' \<longrightarrow>
            GetProductDetails h path =
              ErrorResponse StatusInternalServerError
                (BuildErrorMessage ''Unable to retrieve product: '' err)) \<and>
         Error ErrRecordNotFound = ''record not found''"
  using assms by (simp add: GetProductDetails_def Let_def)

theorem not_found_text_is_internal_witness:
  "TrimPrefix ''/catalog/INVALID'' ''/catalog/'' = ''INVALID'' \<and>
   ''INVALID'' \<noteq> [] \<and>
   svc_GetProductByCode (MockCatalogService (Inl (ErrorsNew ''record not found''))) ''INVALID'' =
     Inl (ErrorsNew ''record not found'') \<and>
   svc_GetProductByCode (MockCatalogService (Inl ErrRecordNotFound)) ''INVALID'' =
     Inl ErrRecordNotFound \<and>
   ErrorsNew ''record not found'' \<noteq> ErrRecordNotFound \<and>
   Error (ErrorsNew ''record not found'') = ''record not found'' \<and>
   GetProductDetails (MockCatalogService (Inl (ErrorsNew ''record not found''))) ''/catalog/INVALID'' =
     ErrorResponse StatusInternalServerError
       (BuildErrorMessage ''Unable to retrieve product: '' (ErrorsNew ''record not found'')) \<and>
   GetProductDetails (MockCatalogService (Inl ErrRecordNotFound)) ''/catalog/INVALID'' =
     ErrorResponse StatusNotFound (Text ''Product not found'')"
proof -
  have p: "TrimPrefix ''/catalog/INVALID'' ''/catalog/'' = ''INVALID''"
    by (simp add: TrimPrefix_def)
  have c: "''INVALID'' \<noteq> []"
    by simp
  have s: "svc_GetProductByCode (MockCatalogService (Inl (ErrorsNew ''record not found'')))
             ''INVALID'' = Inl (ErrorsNew ''record not found'')"
    and s': "svc_GetProductByCode (MockCatalogService (Inl ErrRecordNotFound)) ''INVALID'' =
             Inl ErrRecordNotFound"
    by (simp_all add: MockCatalogService_def)
  from not_found_text_is_internal [OF p c s] not_found_text_is_internal [OF p c s'] p c s s'
  show ?thesis by simp
qed


end
